theory Spec2Isabelle
  imports Complex_Main "HOL-Library.Word" "HOL-Library.Signed_Division"
begin

unbundle bit_operations_syntax

section \<open>FastTrig: integer trigonometry (fast\_trig.hpp)\<close>

text \<open>
  The fixed-width types of the header. Signed and unsigned values of one width share a
  word type; \<open>sint\<close> and \<open>unat\<close> read them, \<open>scast\<close> sign-extends and \<open>ucast\<close>
  zero-extends or truncates, as the C++ conversions do.
\<close>

type_synonym u8 = "8 word"
type_synonym u16 = "16 word"
type_synonym i16 = "16 word"
type_synonym u32 = "32 word"
type_synonym i32 = "32 word"

text \<open>
  C++ division of signed 32-bit values truncates towards zero. The callers below never
  divide by zero: each guards its divisor.
\<close>

definition sdiv32 :: "i32 \<Rightarrow> i32 \<Rightarrow> i32" where
  "sdiv32 a b = word_of_int (sint a sdiv sint b)"

subsection \<open>Template parameter and constants\<close>

text \<open>The \<open>requires\<close> clause of \<open>IntegerTrig<TableSize>\<close>.\<close>

definition valid_table_size :: "nat \<Rightarrow> bool" where
  "valid_table_size N \<longleftrightarrow> 8 \<le> N \<and> N \<le> 4096 \<and> N AND (N - 1) = 0"

definition ANGLE_MAX :: u16 where
  "ANGLE_MAX = 8192"

definition OUTPUT_SCALE :: i16 where
  "OUTPUT_SCALE = 8192"

text \<open>\<open>__builtin_ctz\<close>: the number of trailing zero bits (of a nonzero argument).\<close>

fun ctz :: "nat \<Rightarrow> nat" where
  "ctz n = (if n = 0 \<or> odd n then 0 else Suc (ctz (n div 2)))"

declare ctz.simps [simp del]

definition TABLE_BITS :: "nat \<Rightarrow> nat" where
  "TABLE_BITS N = ctz N"

definition TABLE_MASK :: "nat \<Rightarrow> u32" where
  "TABLE_MASK N = of_nat (N - 1)"

definition RECIPROCAL_QUADRANT :: "nat \<Rightarrow> u32" where
  "RECIPROCAL_QUADRANT N = of_nat (push_bit 16 N div 4096)"

subsection \<open>Sine table\<close>

definition sin_internal :: "u32 \<Rightarrow> i16" where
  "sin_internal angle =
    (let x = angle;
         trm = drop_bit 14 (x * (16384 - x));
         numerator = push_bit 2 trm;
         denominator = 16487 - trm
     in if denominator = 0 then ucast (scast OUTPUT_SCALE * 2 :: i32)
        else ucast (sdiv32 (numerator * scast OUTPUT_SCALE * 2) denominator))"

definition generate_sine_quarter_table :: "nat \<Rightarrow> i16 list" where
  "generate_sine_quarter_table N =
     map (\<lambda>i. sin_internal (of_nat ((i * 16384) div (N - 1)))) [0..<N]"

definition sine_quarter_table :: "nat \<Rightarrow> i16 list" where
  "sine_quarter_table N = generate_sine_quarter_table N"

subsection \<open>Sine, cosine, tangent\<close>

definition sin_trig :: "nat \<Rightarrow> u16 \<Rightarrow> i16" where
  "sin_trig N angle0 =
    (let angle = angle0 AND 0x3FFF;
         quadrant = (ucast (drop_bit 12 angle) :: u8);
         position = angle AND 0xFFF;
         position = (if quadrant AND 1 \<noteq> 0 then 0x1000 - position else position);
         index_scaled = (ucast position :: u32) * RECIPROCAL_QUADRANT N;
         index = drop_bit 16 index_scaled;
         fraction = (ucast (drop_bit 8 index_scaled AND 0xFF) :: u8);
         index = (if index < of_nat (N - 1) then index else of_nat (N - 1));
         y0 = (scast (sine_quarter_table N ! unat index) :: i32);
         y1 = (scast (sine_quarter_table N ! unat ((index + 1) AND TABLE_MASK N)) :: i32);
         val = (ucast (y0 + signed_drop_bit 8 ((y1 - y0) * ucast fraction)) :: i16);
         sign_mask = (ucast (- (ucast (drop_bit 1 quadrant) :: i32)) :: i16)
     in (val XOR sign_mask) - sign_mask)"

definition cos_trig :: "nat \<Rightarrow> u16 \<Rightarrow> i16" where
  "cos_trig N angle = sin_trig N (angle + drop_bit 2 ANGLE_MAX)"

definition tan_trig :: "nat \<Rightarrow> u16 \<Rightarrow> i16" where
  "tan_trig N angle =
    (let sin_val = sin_trig N angle;
         cos_val = cos_trig N angle
     in if - 100 <s cos_val \<and> cos_val <s 100
        then (if 0 \<le>s sin_val then 32767 else - 32767)
        else
          (let result = sdiv32 ((scast sin_val :: i32) * scast OUTPUT_SCALE) (scast cos_val)
           in if 32767 <s result then 32767
              else if result <s - 32767 then - 32767
              else ucast result))"

subsection \<open>Arctangent\<close>

text \<open>
  One entry of the arctangent table: sixteen rotation steps towards \<open>target_y\<close>.
  \<open>atan_rotate\<close> is the body of the inner loop; both updates of a step read the
  coordinates from before the step.
\<close>

definition atan_rotate :: "i32 \<Rightarrow> nat \<Rightarrow> i32 \<times> i32 \<times> u32 \<Rightarrow> i32 \<times> i32 \<times> u32" where
  "atan_rotate target_y k s =
    (case s of (x, y, angle) \<Rightarrow>
       (let angle_step = (drop_bit k 2048 :: u32)
        in if y <s target_y
           then (x - signed_drop_bit k y, y + signed_drop_bit k x, angle + angle_step)
           else (x + signed_drop_bit k y, y - signed_drop_bit k x, angle - angle_step)))"

definition atan_table_entry :: "nat \<Rightarrow> nat \<Rightarrow> u16" where
  "atan_table_entry N i =
    (let target_y = (of_nat ((i * 16384) div N) :: i32)
     in case fold (atan_rotate target_y) [0..<16] (16384, 0, 0) of
          (x, y, angle) \<Rightarrow> ucast angle)"

definition generate_atan_quarter_table :: "nat \<Rightarrow> u16 list" where
  "generate_atan_quarter_table N = map (atan_table_entry N) [0..<N]"

definition atan_quarter_table :: "nat \<Rightarrow> u16 list" where
  "atan_quarter_table N = generate_atan_quarter_table N"

definition quadrant_offset :: "u16 list" where
  "quadrant_offset = [0, 2 * ANGLE_MAX, ANGLE_MAX, ANGLE_MAX]"

definition angle_sign :: "i16 list" where
  "angle_sign = [1, - 1, - 1, 1]"

definition atan2 :: "nat \<Rightarrow> i16 \<Rightarrow> i16 \<Rightarrow> u16" where
  "atan2 N y x =
    (if x = 0 then
       (if 0 <s y then drop_bit 1 ANGLE_MAX
        else if y <s 0 then drop_bit 1 ANGLE_MAX * 3
        else 0)
     else
       (let abs_x = (if x <s 0 then - scast x else scast x :: u32);
            abs_y = (if y <s 0 then - scast y else scast y :: u32);
            quadrant_adjust =
              (push_bit 1 (if x <s 0 then 1 else 0) OR (if y <s 0 then 1 else 0) :: u8);
            angle =
              (if abs_y \<le> abs_x then
                 (let ratio_scaled = push_bit (TABLE_BITS N) abs_y div abs_x;
                      index = ratio_scaled AND TABLE_MASK N;
                      fraction = (push_bit (TABLE_BITS N + 8) abs_y div abs_x) AND 0xFF;
                      y0 = (ucast (atan_quarter_table N ! unat index) :: i32);
                      y1 = (ucast (atan_quarter_table N ! unat ((index + 1) AND TABLE_MASK N)) :: i32)
                  in (ucast (y0 + drop_bit 8 ((y1 - y0) * fraction)) :: u16))
               else
                 (let ratio_scaled = push_bit (TABLE_BITS N) abs_x div abs_y;
                      index = ratio_scaled AND TABLE_MASK N;
                      fraction = (push_bit (TABLE_BITS N + 8) abs_x div abs_y) AND 0xFF;
                      y0 = (ucast (atan_quarter_table N ! unat index) :: i32);
                      y1 = (ucast (atan_quarter_table N ! unat ((index + 1) AND TABLE_MASK N)) :: i32);
                      base = (ucast (y0 + drop_bit 8 ((y1 - y0) * fraction)) :: u16)
                  in drop_bit 1 ANGLE_MAX - base))
        in ucast ((ucast (quadrant_offset ! unat quadrant_adjust) :: i32)
                  + ucast angle * scast (angle_sign ! unat quadrant_adjust))))"

definition atan :: "nat \<Rightarrow> i16 \<Rightarrow> u16" where
  "atan N v = atan2 N v (OUTPUT_SCALE * 2)"

subsection \<open>Arcsine and arccosine\<close>

text \<open>
  The bisection loop of the arcsine table. It is a \<open>while\<close> loop on unsigned 32-bit
  bounds, so the model is partial: \<open>None\<close> stands for a loop that does not end.
  \<open>asin_search_total\<close> below shows that the loop ends from the bounds the generator
  starts it with.
\<close>

partial_function (option) asin_search :: "i32 \<Rightarrow> u32 \<Rightarrow> u32 \<Rightarrow> (u32 \<times> u32) option" where
  "asin_search target low high =
    (if 1 < high - low
     then (if (scast (sin_internal ((low + high) div 2)) :: i32) <s target
           then asin_search target ((low + high) div 2) high
           else asin_search target low ((low + high) div 2))
     else Some (low, high))"

definition asin_table_entry :: "nat \<Rightarrow> nat \<Rightarrow> u16 option" where
  "asin_table_entry N i =
    (let target = (of_nat ((i * nat (sint OUTPUT_SCALE) * 2) div N) :: i32)
     in case asin_search target 0 (ucast ANGLE_MAX div 2) of
          None \<Rightarrow> None
        | Some (low, high) \<Rightarrow> Some (ucast ((low + high) div 2)))"

definition generate_asin_quarter_table :: "nat \<Rightarrow> u16 list option" where
  "generate_asin_quarter_table N = those (map (asin_table_entry N) [0..<N])"

definition asin_quarter_table :: "nat \<Rightarrow> u16 list option" where
  "asin_quarter_table N = generate_asin_quarter_table N"

definition asin :: "nat \<Rightarrow> i16 \<Rightarrow> u16 option" where
  "asin N v =
    (case asin_quarter_table N of
       None \<Rightarrow> None
     | Some tbl \<Rightarrow>
        (let abs_val = (if v <s 0 then - scast v else scast v :: u32);
             abs_val = (if scast OUTPUT_SCALE * 2 < abs_val then scast OUTPUT_SCALE * 2 else abs_val);
             ASIN_RECIPROCAL = (of_nat (push_bit 16 N div (nat (sint OUTPUT_SCALE) * 2)) :: u32);
             index_scaled = abs_val * ASIN_RECIPROCAL;
             index = drop_bit 16 index_scaled;
             fraction = (ucast (drop_bit 8 index_scaled AND 0xFF) :: u8);
             index = (if index < of_nat (N - 1) then index else of_nat (N - 1));
             y0 = (ucast (tbl ! unat index) :: i32);
             y1 = (ucast (tbl ! unat ((index + 1) AND TABLE_MASK N)) :: i32);
             angle = (ucast (y0 + signed_drop_bit 8 ((y1 - y0) * ucast fraction)) :: u16)
         in Some (if v <s 0 then ucast ((2 * ucast ANGLE_MAX :: i32) - ucast angle) else angle)))"

definition acos :: "nat \<Rightarrow> i16 \<Rightarrow> u16 option" where
  "acos N v =
    (case asin N v of
       None \<Rightarrow> None
     | Some asin_result \<Rightarrow> Some (drop_bit 1 ANGLE_MAX - asin_result))"

subsection \<open>Magnitude\<close>

text \<open>
  The body of the loop of \<open>magnitude\<close>, for iteration \<open>i\<close>. The unsigned 32-bit
  arithmetic wraps, the final product included; negating the most negative input, which
  C++ leaves undefined, wraps as well.
\<close>

definition magnitude_step :: "nat \<Rightarrow> u32 \<times> u32 \<Rightarrow> u32 \<times> u32" where
  "magnitude_step i s =
    (case s of (abs_x, abs_y) \<Rightarrow>
       (let x_shift = drop_bit i abs_x;
            y_shift = drop_bit i abs_y
        in if 0 < abs_y
           then (abs_x + y_shift, if x_shift < abs_y then abs_y - x_shift else 0)
           else (abs_x, abs_y)))"

definition magnitude :: "i32 \<Rightarrow> i32 \<Rightarrow> i32" where
  "magnitude x y =
    (let abs_x = (if x <s 0 then - x else x :: u32);
         abs_y = (if y <s 0 then - y else y :: u32)
     in case fold magnitude_step [0..<12] (abs_x, abs_y) of
          (abs_x, abs_y) \<Rightarrow> drop_bit 16 (abs_x * 39797))"

subsection \<open>Angle conversion\<close>

function from_degrees_neg :: "i16 \<Rightarrow> i16" where
  "from_degrees_neg degrees =
     (if degrees <s 0 then from_degrees_neg (degrees + 360) else degrees)"
  by pat_completeness auto
termination
proof (relation "measure (\<lambda>d. nat (- sint d))")
  show "wf (measure (\<lambda>d::i16. nat (- sint d)))" by simp
next
  fix degrees :: i16
  assume neg: "degrees <s 0"
  have lo: "- 32768 \<le> sint degrees"
    using sint_ge [of degrees] by simp
  from neg have hi: "sint degrees < 0"
    by (simp add: word_sless_alt)
  have "sint (degrees + 360) = sint degrees + 360"
    using lo hi by (simp add: sint_word_ariths signed_take_bit_int_eq_self)
  with hi show "(degrees + 360, degrees) \<in> measure (\<lambda>d. nat (- sint d))"
    by simp
qed

function from_degrees_pos :: "i16 \<Rightarrow> i16" where
  "from_degrees_pos degrees =
     (if 360 \<le>s degrees then from_degrees_pos (degrees - 360) else degrees)"
  by pat_completeness auto
termination
proof (relation "measure (\<lambda>d. nat (sint d + 32768))")
  show "wf (measure (\<lambda>d::i16. nat (sint d + 32768)))" by simp
next
  fix degrees :: i16
  assume big: "360 \<le>s degrees"
  have hi: "sint degrees < 32768"
    using sint_lt [of degrees] by simp
  from big have lo: "360 \<le> sint degrees"
    by (simp add: word_sle_eq)
  have "sint (degrees - 360) = sint degrees - 360"
    using lo hi by (simp add: sint_word_ariths signed_take_bit_int_eq_self)
  with lo show "(degrees - 360, degrees) \<in> measure (\<lambda>d. nat (sint d + 32768))"
    by simp
qed

definition from_degrees :: "i16 \<Rightarrow> u16" where
  "from_degrees degrees0 =
    (let degrees = from_degrees_neg degrees0;
         degrees = from_degrees_pos degrees
     in ucast (((scast degrees :: u32) * 16384) div 360))"

definition to_degrees :: "u16 \<Rightarrow> i16" where
  "to_degrees angle = ucast (((ucast angle :: u32) * 360) div 16384)"

section \<open>Properties\<close>

subsection \<open>Signed arithmetic without overflow\<close>

lemma sint_scast_i16: "sint (scast (w :: i16) :: i32) = sint w"
  using sint_ge [of w] sint_lt [of w]
  by (simp add: signed_scast_eq signed_take_bit_int_eq_self)

lemma sint_scale_i16: "sint ((scast (s :: i16) :: i32) * scast OUTPUT_SCALE) = sint s * 8192"
  using sint_ge [of s] sint_lt [of s]
  by (simp add: sint_word_ariths sint_scast_i16 OUTPUT_SCALE_def signed_take_bit_int_eq_self)

lemma sint_sdiv32:
  assumes "- (2 ^ 30) \<le> sint a" "sint a \<le> 2 ^ 30"
  shows "sint (sdiv32 a b) = sint a sdiv sint b"
proof -
  have "sint a sdiv sint b \<in> {- \<bar>sint a\<bar>..\<bar>sint a\<bar>}"
    by (rule sdiv_int_range)
  with assms have "- (2 ^ 31) \<le> sint a sdiv sint b" "sint a sdiv sint b < 2 ^ 31"
    by auto
  then show ?thesis
    by (simp add: sdiv32_def signed_of_int signed_take_bit_int_eq_self)
qed

lemma sint_narrow_i32:
  assumes "- 32768 \<le> sint (r :: i32)" "sint r < 32768"
  shows "sint (ucast r :: i16) = sint r"
proof -
  have "(ucast r :: i16) = scast r"
    by (simp add: down_cast_same is_down)
  with assms show ?thesis
    by (simp add: signed_scast_eq signed_take_bit_int_eq_self)
qed

subsection \<open>Reading the tables\<close>

lemma sine_table_nth:
  "i < N \<Longrightarrow> sine_quarter_table N ! i = sin_internal (of_nat ((i * 16384) div (N - 1)))"
  by (simp add: sine_quarter_table_def generate_sine_quarter_table_def)

lemma atan_table_nth:
  "i < N \<Longrightarrow> atan_quarter_table N ! i = atan_table_entry N i"
  by (simp add: atan_quarter_table_def generate_atan_quarter_table_def)

lemma upt_16: "[0..<16] = [0, 1, 2, 3, 4, 5, 6, 7, 8, 9, 10, 11, 12, 13, 14, 15 :: nat]"
  by (simp add: upt_rec)

lemma upt_12: "[0..<12] = [0, 1, 2, 3, 4, 5, 6, 7, 8, 9, 10, 11 :: nat]"
  by (simp add: upt_rec)

lemma TABLE_BITS_128: "TABLE_BITS 128 = 7"
  by (simp add: TABLE_BITS_def ctz.simps)

lemmas sin_eval = sin_trig_def sine_table_nth RECIPROCAL_QUADRANT_def TABLE_MASK_def Let_def
  sin_internal_def sdiv32_def OUTPUT_SCALE_def

subsection \<open>The bisection of the arcsine table ends\<close>

text \<open>
  Started with \<open>low < high \<le> 4096\<close>, the loop of \<open>generate_asin_quarter_table\<close> ends
  with adjacent bounds. So every table entry exists, for every table size, and \<open>asin\<close>
  and \<open>acos\<close> always return.
\<close>

lemma asin_search_total:
  fixes low high :: u32
  assumes "unat low < unat high" "unat high \<le> 4096"
  shows "\<exists>l h. asin_search target low high = Some (l, h) \<and>
           unat h = Suc (unat l) \<and> unat h \<le> 4096"
  using assms
proof (induction "unat high - unat low" arbitrary: low high rule: less_induct)
  case less
  have le: "low \<le> high"
    using less.prems by (simp add: word_le_nat_alt)
  have diff: "unat (high - low) = unat high - unat low"
    using le by (rule unat_sub)
  have gap: "1 < high - low \<longleftrightarrow> 1 < unat high - unat low"
    by (simp add: word_less_nat_alt diff)
  show ?case
  proof (cases "1 < unat high - unat low")
    case False
    with less.prems have "unat high = Suc (unat low)"
      by simp
    moreover have "asin_search target low high = Some (low, high)"
      using False gap by (subst asin_search.simps) simp
    ultimately show ?thesis
      using less.prems by simp
  next
    case True
    define mid where "mid = (low + high) div 2"
    have "unat low + unat high < 2 ^ LENGTH(32)"
      using less.prems by simp
    then have sum: "unat (low + high) = unat low + unat high"
      using unat_add_lem [of low high] by simp
    have mid: "unat mid = (unat low + unat high) div 2"
      by (simp add: mid_def unat_div sum)
    have lm: "unat low < unat mid" and mh: "unat mid < unat high"
      using True less.prems by (simp_all add: mid)
    show ?thesis
    proof (cases "(scast (sin_internal mid) :: i32) <s target")
      case up: True
      have "unat high - unat mid < unat high - unat low"
        using lm mh by simp
      from less.hyps [OF this mh less.prems(2)]
      obtain l h where "asin_search target mid high = Some (l, h)"
        "unat h = Suc (unat l)" "unat h \<le> 4096"
        by blast
      moreover have "asin_search target low high = asin_search target mid high"
        using True gap up by (subst asin_search.simps) (simp add: mid_def)
      ultimately show ?thesis by simp
    next
      case down: False
      have "unat mid - unat low < unat high - unat low"
        using lm mh by simp
      moreover have "unat mid \<le> 4096"
        using mh less.prems by simp
      ultimately obtain l h where "asin_search target low mid = Some (l, h)"
        "unat h = Suc (unat l)" "unat h \<le> 4096"
        using less.hyps [OF _ lm] by blast
      moreover have "asin_search target low high = asin_search target low mid"
        using True gap down by (subst asin_search.simps) (simp add: mid_def)
      ultimately show ?thesis by simp
    qed
  qed
qed

lemma asin_table_entry_total: "\<exists>a. asin_table_entry N i = Some a"
  using asin_search_total [of 0 4096 "of_nat ((i * nat (sint OUTPUT_SCALE) * 2) div N)"]
  by (auto simp add: asin_table_entry_def ANGLE_MAX_def)

lemma those_map_total:
  "(\<And>x. x \<in> set xs \<Longrightarrow> \<exists>y. f x = Some y) \<Longrightarrow> those (map f xs) = Some (map (the \<circ> f) xs)"
proof (induction xs)
  case Nil
  show ?case by simp
next
  case (Cons a xs)
  from Cons.prems obtain y where "f a = Some y"
    by auto
  moreover have "those (map f xs) = Some (map (the \<circ> f) xs)"
    using Cons by simp
  ultimately show ?case by simp
qed

lemma asin_quarter_table_eq:
  "asin_quarter_table N = Some (map (the \<circ> asin_table_entry N) [0..<N])"
  unfolding asin_quarter_table_def generate_asin_quarter_table_def
  by (rule those_map_total) (rule asin_table_entry_total)

lemma asin_total: "\<exists>a. asin N v = Some a"
  by (simp add: asin_def asin_quarter_table_eq Let_def)

lemma acos_total: "\<exists>a. acos N v = Some a"
  using asin_total [of N v] by (auto simp add: acos_def)

lemmas asin_eval = asin_def acos_def asin_quarter_table_eq asin_table_entry_def ANGLE_MAX_def
  asin_search.simps sin_internal_def sdiv32_def OUTPUT_SCALE_def word_sless_alt TABLE_MASK_def

subsection \<open>Cosine\<close>

lemma cos_trig_shift: "cos_trig N a = sin_trig N (a + 2048)"
  by (simp add: cos_trig_def ANGLE_MAX_def)

text \<open>
  Claim C1 says that \<open>cos(a)\<close> is \<open>sin((a + 4096) mod 16384)\<close>, a quarter turn ahead.
  The code adds \<open>ANGLE_MAX >> 2 = 2048\<close>, an eighth of a turn (\<open>cos_trig_shift\<close>).
  For table size \<open>128\<close> and angle \<open>0\<close> the cosine is \<open>21656\<close>, while the sine a
  quarter turn ahead is \<open>0\<close>.
\<close>

theorem cos_zero_is_not_sin_quarter_turn:
  "cos_trig 128 0 = 21656 \<and> sin_trig 128 (of_nat ((0 + 4096) mod 16384)) = 0"
  by (simp add: cos_trig_shift sin_eval)

subsection \<open>The sine table\<close>

text \<open>
  Claim C2 says that the sine table starts at \<open>0\<close>, ends at \<open>16384\<close> and never
  decreases. For every valid table size the table does start at \<open>0\<close>, but its last
  entry is \<open>0\<close> as well: the generator sweeps \<open>sin_internal\<close> over \<open>0..16384\<close>, where
  the approximation runs through a half wave. At size \<open>128\<close> entry \<open>64\<close> is
  \<open>21656\<close>, so the table rises and falls.
\<close>

theorem sine_table_ends_at_zero:
  assumes "valid_table_size N"
  shows "sine_quarter_table N ! 0 = 0 \<and> sine_quarter_table N ! (N - 1) = 0
         \<and> sine_quarter_table N ! (N - 1) \<noteq> 16384"
proof -
  from assms have N: "8 \<le> N"
    by (simp add: valid_table_size_def)
  then have "((N - 1) * 16384) div (N - 1) = 16384"
    by simp
  then have "sine_quarter_table N ! (N - 1) = sin_internal 16384"
    using N by (simp add: sine_table_nth)
  also have "\<dots> = 0"
    by (simp add: sin_internal_def sdiv32_def OUTPUT_SCALE_def)
  finally have last: "sine_quarter_table N ! (N - 1) = 0" .
  have "sine_quarter_table N ! 0 = sin_internal 0"
    using N by (simp add: sine_table_nth)
  also have "\<dots> = 0"
    by (simp add: sin_internal_def sdiv32_def OUTPUT_SCALE_def)
  finally show ?thesis
    using last by simp
qed

theorem sine_table_ends_at_zero_witness:
  "valid_table_size 128 \<and> sine_quarter_table 128 ! 0 = 0 \<and> sine_quarter_table 128 ! 64 = 21656
   \<and> sine_quarter_table 128 ! 127 = 0"
proof -
  have v: "valid_table_size 128"
    by (simp add: valid_table_size_def)
  have "sine_quarter_table 128 ! 64 = 21656"
    by (simp add: sin_eval)
  with v sine_table_ends_at_zero [OF v] show ?thesis
    by simp
qed

subsection \<open>Sine at the quadrant boundaries\<close>

text \<open>
  Claim C3 says that, for table size \<open>128\<close>, the sine of \<open>0\<close>, \<open>4096\<close>, \<open>8192\<close>
  and \<open>12288\<close> is \<open>0\<close>, \<open>16384\<close>, \<open>0\<close> and \<open>- 16384\<close> (the last three within one
  unit). The code returns \<open>0\<close> at all four angles: at \<open>4096\<close> and \<open>12288\<close> it reads
  the last table entry, which is \<open>0\<close>.
\<close>

theorem sin_quadrant_boundaries:
  "sin_trig 128 0 = 0 \<and> sin_trig 128 4096 = 0 \<and> sin_trig 128 8192 = 0 \<and>
   sin_trig 128 12288 = 0"
  by (simp add: sin_eval)

subsection \<open>Magnitude\<close>

text \<open>
  Claim C4 says that \<open>magnitude(x, y)\<close> is within one percent of the Euclidean norm.
  On the axis-aligned input \<open>(1000, 0)\<close> the loop changes nothing, the gain correction
  is applied all the same, and the result is \<open>607\<close> for a norm of \<open>1000\<close>.
\<close>

theorem magnitude_axis_error:
  "magnitude 1000 0 = 607 \<and>
   \<not> \<bar>real_of_int (sint (magnitude 1000 0)) - sqrt (1000\<^sup>2 + 0\<^sup>2)\<bar>
       \<le> 0.01 * sqrt (1000\<^sup>2 + 0\<^sup>2)"
proof -
  have m: "magnitude 1000 0 = 607"
    by (simp add: magnitude_def upt_12 magnitude_step_def word_sless_alt)
  have "sqrt (1000\<^sup>2 + 0\<^sup>2) = 1000"
    by simp
  with m show ?thesis
    by simp
qed

subsection \<open>Arctangent in the quadrants\<close>

lemma atan_table_128_0: "atan_table_entry 128 0 = 65183"
  by (simp add: atan_table_entry_def upt_16 atan_rotate_def word_sless_alt)

lemma atan_table_128_1: "atan_table_entry 128 1 = 363"
  by (simp add: atan_table_entry_def upt_16 atan_rotate_def word_sless_alt)

text \<open>
  Claim C5 says that, for table size \<open>128\<close>, \<open>to_degrees(atan2(y, x))\<close> is \<open>45\<close>,
  \<open>135\<close>, \<open>315\<close> and \<open>90\<close> at \<open>(1000, 1000)\<close>, \<open>(1000, - 1000)\<close>,
  \<open>(- 1000, 1000)\<close> and \<open>(1000, 0)\<close>. The code gives \<open>1432\<close>, \<open>187\<close>, \<open>367\<close> and
  \<open>90\<close>: with \<open>|y| = |x|\<close> the scaled ratio is the table size, the mask wraps it to
  index \<open>0\<close>, and entry \<open>0\<close> of the table is \<open>65183\<close>.
\<close>

theorem atan2_quadrant_degrees:
  "to_degrees (atan2 128 1000 1000) = 1432 \<and>
   to_degrees (atan2 128 1000 (- 1000)) = 187 \<and>
   to_degrees (atan2 128 (- 1000) 1000) = 367 \<and>
   to_degrees (atan2 128 1000 0) = 90"
  by (simp add: to_degrees_def atan2_def TABLE_BITS_128 TABLE_MASK_def atan_table_nth
      atan_table_128_0 atan_table_128_1 quadrant_offset_def angle_sign_def ANGLE_MAX_def
      word_sless_alt)

subsection \<open>Arcsine and arccosine\<close>

text \<open>
  Claim C6 says that inputs beyond \<open>8192\<close> in absolute value are clamped to \<open>8192\<close>,
  with \<open>asin(8192) = 4096\<close> and \<open>acos(8192) = 0\<close>. The code clamps at
  \<open>OUTPUT_SCALE * 2 = 16384\<close>. For table size \<open>128\<close>, \<open>asin(8192)\<close> is \<open>2101\<close>,
  \<open>acos(8192)\<close> is \<open>1995\<close>, and \<open>asin(9000)\<close> is \<open>2318\<close>, neither \<open>4096\<close> nor the
  value at \<open>8192\<close>.
\<close>

theorem asin_acos_at_unit_input:
  "asin 128 8192 = Some 2101 \<and> acos 128 8192 = Some 1995 \<and> asin 128 9000 = Some 2318"
  by (simp add: asin_eval)

text \<open>
  Claim C9 says that \<open>asin(v) + acos(v)\<close>, the two results read as unsigned 16-bit
  numbers, is within \<open>10\<close> of \<open>4096\<close> for every \<open>v\<close> from \<open>- 8192\<close> to \<open>8192\<close>. For
  table size \<open>128\<close> and \<open>v = - 8192\<close> the code returns \<open>14283\<close> and \<open>55349\<close>, whose
  sum is \<open>69632\<close>: the subtraction in \<open>acos\<close> wraps around in 16 bits.
\<close>

theorem asin_plus_acos_negative_input:
  "asin 128 (- 8192) = Some 14283 \<and> acos 128 (- 8192) = Some 55349 \<and>
   unat (14283 :: u16) + unat (55349 :: u16) = 69632"
  by (simp add: asin_eval)

subsection \<open>Tangent\<close>

text \<open>
  Claim C7. For every table size and every 16-bit angle, \<open>tan\<close> returns \<open>32767\<close> or
  \<open>- 32767\<close>, by the sign of the sine, when the cosine lies strictly between \<open>- 100\<close>
  and \<open>100\<close>; otherwise it returns the quotient of \<open>sin \<cdot> 8192\<close> by \<open>cos\<close>, truncated
  towards zero as C++ division is, clamped to \<open>[- 32767, 32767]\<close>. The 32-bit product
  and quotient never overflow, and there is no other path.
\<close>

theorem tan_saturates_or_divides:
  "sint (tan_trig N a) =
     (let s = sint (sin_trig N a); c = sint (cos_trig N a)
      in if \<bar>c\<bar> < 100 then (if 0 \<le> s then 32767 else - 32767)
         else max (- 32767) (min 32767 ((s * 8192) sdiv c)))"
proof -
  define s where "s = sin_trig N a"
  define c where "c = cos_trig N a"
  define r where "r = sdiv32 ((scast s :: i32) * scast OUTPUT_SCALE) (scast c)"
  have bs: "- 32768 \<le> sint s" "sint s < 32768"
    using sint_ge [of s] sint_lt [of s] by simp_all
  have r: "sint r = (sint s * 8192) sdiv sint c"
    unfolding r_def using bs
    by (subst sint_sdiv32) (simp_all add: sint_scale_i16 sint_scast_i16)
  have sat: "\<bar>sint c\<bar> < 100 \<longleftrightarrow> - 100 <s c \<and> c <s 100"
    by (auto simp add: word_sless_alt)
  show ?thesis
  proof (cases "\<bar>sint c\<bar> < 100")
    case True
    then show ?thesis
      using sat by (simp add: tan_trig_def Let_def s_def [symmetric] c_def [symmetric] word_sle_eq)
  next
    case False
    consider "32767 < sint r" | "sint r < - 32767" | "- 32767 \<le> sint r" "sint r \<le> 32767"
      by linarith
    then show ?thesis
    proof cases
      case 1
      then show ?thesis
        using False sat r
        by (auto simp add: tan_trig_def Let_def s_def [symmetric] c_def [symmetric]
            r_def [symmetric] word_sless_alt)
    next
      case 2
      then show ?thesis
        using False sat r
        by (auto simp add: tan_trig_def Let_def s_def [symmetric] c_def [symmetric]
            r_def [symmetric] word_sless_alt)
    next
      case 3
      then have "sint (ucast r :: i16) = sint r"
        by (intro sint_narrow_i32) simp_all
      with 3 show ?thesis
        using False sat r
        by (auto simp add: tan_trig_def Let_def s_def [symmetric] c_def [symmetric]
            r_def [symmetric] word_sless_alt)
    qed
  qed
qed

theorem tan_saturates_or_divides_witness:
  "sint (tan_trig 128 2048) = 32767 \<and> sint (tan_trig 128 100) = 606"
  using tan_saturates_or_divides [of 128 2048] tan_saturates_or_divides [of 128 100]
  by (simp add: cos_trig_shift sin_eval)

subsection \<open>Arctangent on the vertical axis\<close>

text \<open>
  Claim C8. For every table size and every signed 16-bit \<open>y\<close>, \<open>atan2(y, 0)\<close> is
  \<open>4096\<close> (a quarter turn) when \<open>y > 0\<close>, \<open>12288\<close> (three quarter turns) when
  \<open>y < 0\<close>, and \<open>0\<close> when \<open>y = 0\<close>; so \<open>atan2(0, 0) = 0\<close>.
\<close>

theorem atan2_vertical_axis:
  "(0 < sint y \<longrightarrow> atan2 N y 0 = 4096) \<and>
   (sint y < 0 \<longrightarrow> atan2 N y 0 = 12288) \<and>
   (y = 0 \<longrightarrow> atan2 N y 0 = 0)"
  by (auto simp add: atan2_def ANGLE_MAX_def word_sless_alt)

theorem atan2_vertical_axis_witness:
  "0 < sint (1000 :: i16) \<and> atan2 128 1000 0 = 4096 \<and>
   sint (- 1000 :: i16) < 0 \<and> atan2 128 (- 1000) 0 = 12288 \<and>
   atan2 128 0 0 = 0"
  using atan2_vertical_axis [of 1000 128] atan2_vertical_axis [of "- 1000" 128]
    atan2_vertical_axis [of 0 128]
  by simp

subsection \<open>Degrees to internal units\<close>

lemma from_degrees_neg_nonneg: "0 \<le> sint (from_degrees_neg d)"
proof (induction d rule: from_degrees_neg.induct)
  case (1 degrees)
  show ?case
  proof (cases "degrees <s 0")
    case True
    with 1 show ?thesis by simp
  next
    case False
    then show ?thesis by (simp add: word_sless_alt)
  qed
qed

lemma from_degrees_pos_range:
  "0 \<le> sint d \<Longrightarrow> 0 \<le> sint (from_degrees_pos d) \<and> sint (from_degrees_pos d) < 360"
proof (induction d rule: from_degrees_pos.induct)
  case (1 degrees)
  show ?case
  proof (cases "360 \<le>s degrees")
    case True
    then have lo: "360 \<le> sint degrees"
      by (simp add: word_sle_eq)
    have hi: "sint degrees < 32768"
      using sint_lt [of degrees] by simp
    have "sint (degrees - 360) = sint degrees - 360"
      using lo hi by (simp add: sint_word_ariths signed_take_bit_int_eq_self)
    with lo have "0 \<le> sint (degrees - 360)" by simp
    with 1 True show ?thesis by simp
  next
    case False
    with 1 show ?thesis by (simp add: word_sle_eq)
  qed
qed

lemma degrees_scale_bound:
  fixes r :: i16
  assumes "0 \<le> sint r" "sint r < 360"
  shows "unat (ucast (((scast r :: u32) * 16384) div 360) :: u16) < 16384"
proof -
  define k where "k = nat (sint r)"
  have k: "k < 360" and sk: "sint r = int k"
    using assms by (simp_all add: k_def)
  have "(scast r :: u32) = of_int (sint r)"
    by simp
  then have sc: "(scast r :: u32) = of_nat k"
    by (simp add: sk)
  have uk: "unat (of_nat k :: u32) = k"
    using k by (simp add: unat_of_nat)
  have um: "unat ((of_nat k :: u32) * 16384) = k * 16384"
    using k by (simp add: unat_word_ariths uk)
  have ud: "unat ((of_nat k :: u32) * 16384 div 360) = (k * 16384) div 360"
    by (simp add: unat_div um)
  have le: "(k * 16384) div 360 < 16384"
    using k by simp
  have "unat (ucast ((of_nat k :: u32) * 16384 div 360) :: u16)
          = take_bit 16 ((k * 16384) div 360)"
    by (simp add: unsigned_ucast_eq ud)
  also have "\<dots> \<le> (k * 16384) div 360"
    by (rule take_bit_nat_less_eq_self)
  finally show ?thesis
    using le by (simp add: sc)
qed

text \<open>
  Claim C10. For every signed 16-bit number of degrees, \<open>from_degrees\<close> returns, and its
  result is below \<open>16384\<close>, a full turn. Both normalisation loops are total functions:
  their termination proofs are the measures given with \<open>from_degrees_neg\<close> and
  \<open>from_degrees_pos\<close>, where adding or subtracting \<open>360\<close> never leaves the 16-bit range.
\<close>

theorem from_degrees_below_full_turn: "unat (from_degrees d) < 16384"
  unfolding from_degrees_def Let_def
  using from_degrees_pos_range [OF from_degrees_neg_nonneg [of d]]
  by (intro degrees_scale_bound) simp_all

end
